theory Spec2Isabelle
  imports Complex_Main
begin

section \<open>JavaScript values, exceptions and promises\<close>

text \<open>
  A thrown JavaScript \<^verbatim>\<open>Error\<close> carries a message and, for driver errors, a numeric
  \<^verbatim>\<open>code\<close> (absent on errors built with \<^verbatim>\<open>new Error(msg)\<close>). A computation that may
  throw returns \<open>js_error + 'a\<close>; \<open>Inl\<close> is the exception.
\<close>

datatype js_error = Error (code: "int option") (message: string)

definition new_Error :: "string \<Rightarrow> js_error" where
  "new_Error msg = Error None msg"

definition bind_r :: "js_error + 'a \<Rightarrow> ('a \<Rightarrow> js_error + 'b) \<Rightarrow> js_error + 'b" where
  "bind_r r f = (case r of Inl e \<Rightarrow> Inl e | Inr v \<Rightarrow> f v)"

definition try_catch :: "js_error + 'a \<Rightarrow> (js_error \<Rightarrow> js_error + 'a) \<Rightarrow> js_error + 'a" where
  "try_catch body handler = (case body of Inl e \<Rightarrow> handler e | Inr v \<Rightarrow> Inr v)"

text \<open>
  A promise either settles after some milliseconds, resolved (\<open>Inr\<close>) or rejected
  (\<open>Inl\<close>), or never settles. \<^verbatim>\<open>Promise.race([p, new Promise((_, reject) =>
  setTimeout(() => reject(new Error(msg)), ms))])\<close> settles as \<open>p\<close> does when \<open>p\<close> is
  first, and rejects with the timeout error otherwise (also when both are due at the same
  millisecond). The losing operation is not cancelled: its effects on the store still
  happen.
\<close>

datatype 'a promise = Settles nat "js_error + 'a" | Never

fun race_timeout :: "'a promise \<Rightarrow> nat \<Rightarrow> string \<Rightarrow> 'a promise" where
  "race_timeout (Settles t r) ms msg =
     (if t < ms then Settles t r else Settles ms (Inl (new_Error msg)))"
| "race_timeout Never ms msg = Settles ms (Inl (new_Error msg))"


text \<open>\<^verbatim>\<open>String.prototype.includes\<close>.\<close>

fun starts_with :: "string \<Rightarrow> string \<Rightarrow> bool" where
  "starts_with s [] = True"
| "starts_with [] (c # cs) = False"
| "starts_with (x # xs) (c # cs) = (x = c \<and> starts_with xs cs)"

fun js_includes :: "string \<Rightarrow> string \<Rightarrow> bool" where
  "js_includes [] sub = (sub = [])"
| "js_includes (x # xs) sub = (starts_with (x # xs) sub \<or> js_includes xs sub)"

section \<open>The Redis client and \<^verbatim>\<open>cacheService\<close> (src/BACKEND/src/config/redis.config.js)\<close>

text \<open>
  The ioredis client is an external collaborator. Each command sent to it is answered
  in one of three ways, chosen by the environment for every call: it replies after some
  milliseconds, it rejects (connection error, command timeout) or, for a read, it replies
  with text that \<^verbatim>\<open>JSON.parse\<close> rejects. With \<^verbatim>\<open>commandTimeout: 2000\<close> every command
  settles.

  The keys written by the program carry disjoint prefixes (\<^verbatim>\<open>url:\<close>, \<^verbatim>\<open>tb:\<close>,
  \<^verbatim>\<open>analytics:\<close>, \<^verbatim>\<open>clicks:\<close>), one per kind of value, so every prefix is a keyspace of
  its own: a map from the key to the value that the stored JSON text denotes, with the
  TTL in seconds given to \<^verbatim>\<open>SETEX\<close>. Expiry is an action of the environment.
\<close>

datatype redis_call = Replies nat | Rejects nat string | Garbled nat

type_synonym 'v keyspace = "string \<rightharpoonup> 'v \<times> nat"

text \<open>What \<^verbatim>\<open>redis.get\<close> hands back: \<^verbatim>\<open>null\<close> or a text.\<close>

datatype 'v json_text = EmptyString | Wellformed 'v | Malformed

fun JSON_parse :: "'v json_text \<Rightarrow> js_error + 'v" where
  "JSON_parse (Wellformed v) = Inr v"
| "JSON_parse EmptyString = Inl (new_Error ''Unexpected end of JSON input'')"
| "JSON_parse Malformed = Inl (new_Error ''Unexpected token in JSON'')"

fun latency :: "redis_call \<Rightarrow> nat" where
  "latency (Replies t) = t"
| "latency (Rejects t m) = t"
| "latency (Garbled t) = t"

fun redis_get :: "redis_call \<Rightarrow> 'v keyspace \<Rightarrow> string \<Rightarrow> js_error + 'v json_text option" where
  "redis_get (Replies t) m k = Inr (map_option (\<lambda>(v, ttl). Wellformed v) (m k))"
| "redis_get (Rejects t msg) m k = Inl (new_Error msg)"
| "redis_get (Garbled t) m k = Inr (Some Malformed)"

fun redis_setex :: "redis_call \<Rightarrow> 'v keyspace \<Rightarrow> string \<Rightarrow> nat \<Rightarrow> 'v \<Rightarrow> (js_error + unit) \<times> 'v keyspace" where
  "redis_setex (Rejects t msg) m k ttl v = (Inl (new_Error msg), m)"
| "redis_setex c m k ttl v = (Inr (), m(k \<mapsto> (v, ttl)))"

fun redis_del :: "redis_call \<Rightarrow> 'v keyspace \<Rightarrow> string \<Rightarrow> (js_error + unit) \<times> 'v keyspace" where
  "redis_del (Rejects t msg) m k = (Inl (new_Error msg), m)"
| "redis_del c m k = (Inr (), m(k := None))"

text \<open>
  Counters (\<^verbatim>\<open>INCR\<close>, \<^verbatim>\<open>EXPIRE\<close>) live in a keyspace of integers whose TTL is optional:
  \<^verbatim>\<open>INCR\<close> on a missing key creates it at 1 with no TTL.
\<close>

type_synonym counters = "string \<rightharpoonup> int \<times> nat option"

fun redis_incr :: "redis_call \<Rightarrow> counters \<Rightarrow> string \<Rightarrow> (js_error + int) \<times> counters" where
  "redis_incr (Rejects t msg) m k = (Inl (new_Error msg), m)"
| "redis_incr c m k =
     (case m k of
        None \<Rightarrow> (Inr 1, m(k \<mapsto> (1, None)))
      | Some (n, ttl) \<Rightarrow> (Inr (n + 1), m(k \<mapsto> (n + 1, ttl))))"

fun redis_expire :: "redis_call \<Rightarrow> counters \<Rightarrow> string \<Rightarrow> nat \<Rightarrow> (js_error + unit) \<times> counters" where
  "redis_expire (Rejects t msg) m k ttl = (Inl (new_Error msg), m)"
| "redis_expire c m k ttl =
     (case m k of
        None \<Rightarrow> (Inr (), m)
      | Some (n, old) \<Rightarrow> (Inr (), m(k \<mapsto> (n, Some ttl))))"

fun redis_mget :: "redis_call \<Rightarrow> 'v keyspace \<Rightarrow> string list \<Rightarrow> js_error + 'v json_text option list" where
  "redis_mget (Replies t) m ks = Inr (map (\<lambda>k. map_option (\<lambda>(v, ttl). Wellformed v) (m k)) ks)"
| "redis_mget (Rejects t msg) m ks = Inl (new_Error msg)"
| "redis_mget (Garbled t) m ks = Inr (map (\<lambda>k. Some Malformed) ks)"

fun redis_exists :: "redis_call \<Rightarrow> 'v keyspace \<Rightarrow> string \<Rightarrow> js_error + nat" where
  "redis_exists (Rejects t msg) m k = Inl (new_Error msg)"
| "redis_exists c m k = Inr (if m k = None then 0 else 1)"

fun redis_ping :: "redis_call \<Rightarrow> js_error + string" where
  "redis_ping (Rejects t msg) = Inl (new_Error msg)"
| "redis_ping c = Inr ''PONG''"

subsection \<open>\<^verbatim>\<open>cacheService\<close>\<close>

text \<open>
  Every operation first tests the module variable \<^verbatim>\<open>redisAvailable\<close> and then runs the
  client command inside \<^verbatim>\<open>try { ... } catch (error) { ...; return default }\<close>. The first
  argument is \<^verbatim>\<open>redisAvailable\<close>, the second the environment's answer to the command.
  The result type keeps the exception branch, so that "never throws" is a statement
  about the function and not about its type.
\<close>

definition cacheService_ping :: "bool \<Rightarrow> redis_call \<Rightarrow> js_error + string option" where
  "cacheService_ping redisAvailable c =
     (if \<not> redisAvailable then Inr None
      else try_catch (bind_r (redis_ping c) (\<lambda>pong. Inr (Some pong))) (\<lambda>error. Inr None))"

definition cacheService_get :: "bool \<Rightarrow> redis_call \<Rightarrow> 'v keyspace \<Rightarrow> string \<Rightarrow> js_error + 'v option" where
  "cacheService_get redisAvailable c m key =
     (if \<not> redisAvailable then Inr None
      else try_catch
        (bind_r (redis_get c m key) (\<lambda>data.
           case data of
             None \<Rightarrow> Inr None
           | Some text \<Rightarrow>
               if text = EmptyString then Inr None
               else bind_r (JSON_parse text) (\<lambda>v. Inr (Some v))))
        (\<lambda>error. Inr None))"

definition cacheService_set ::
  "bool \<Rightarrow> redis_call \<Rightarrow> 'v keyspace \<Rightarrow> string \<Rightarrow> 'v \<Rightarrow> nat \<Rightarrow> (js_error + bool) \<times> 'v keyspace" where
  "cacheService_set redisAvailable c m key v ttlSeconds =
     (if \<not> redisAvailable then (Inr False, m)
      else case redis_setex c m key ttlSeconds v of
        (r, m') \<Rightarrow> (try_catch (bind_r r (\<lambda>u. Inr True)) (\<lambda>error. Inr False), m'))"

definition cacheService_del ::
  "bool \<Rightarrow> redis_call \<Rightarrow> 'v keyspace \<Rightarrow> string \<Rightarrow> (js_error + bool) \<times> 'v keyspace" where
  "cacheService_del redisAvailable c m key =
     (if \<not> redisAvailable then (Inr False, m)
      else case redis_del c m key of
        (r, m') \<Rightarrow> (try_catch (bind_r r (\<lambda>u. Inr True)) (\<lambda>error. Inr False), m'))"

text \<open>
  \<^verbatim>\<open>incr\<close> sends \<^verbatim>\<open>INCR\<close> and, when the result is 1, \<^verbatim>\<open>EXPIRE\<close>: two commands, each with
  its own answer.
\<close>

definition cacheService_incr ::
  "bool \<Rightarrow> redis_call \<Rightarrow> redis_call \<Rightarrow> counters \<Rightarrow> string \<Rightarrow> nat \<Rightarrow> (js_error + int) \<times> counters" where
  "cacheService_incr redisAvailable c_incr c_expire m key ttlSeconds =
     (if \<not> redisAvailable then (Inr 0, m)
      else case redis_incr c_incr m key of
        (Inl error, m1) \<Rightarrow> (Inr 0, m1)
      | (Inr result, m1) \<Rightarrow>
          if result = 1 then
            (case redis_expire c_expire m1 key ttlSeconds of
               (Inl error, m2) \<Rightarrow> (Inr 0, m2)
             | (Inr u, m2) \<Rightarrow> (Inr result, m2))
          else (Inr result, m1))"

fun parse_all :: "'v json_text option list \<Rightarrow> js_error + 'v option list" where
  "parse_all [] = Inr []"
| "parse_all (val # vals) =
     bind_r (case val of
               None \<Rightarrow> Inr None
             | Some text \<Rightarrow>
                 if text = EmptyString then Inr None
                 else bind_r (JSON_parse text) (\<lambda>v. Inr (Some v)))
       (\<lambda>x. bind_r (parse_all vals) (\<lambda>xs. Inr (x # xs)))"

definition cacheService_mget ::
  "bool \<Rightarrow> redis_call \<Rightarrow> 'v keyspace \<Rightarrow> string list \<Rightarrow> js_error + 'v option list" where
  "cacheService_mget redisAvailable c m keys =
     (if \<not> redisAvailable then Inr []
      else try_catch (bind_r (redis_mget c m keys) parse_all) (\<lambda>error. Inr []))"

text \<open>
  \<^verbatim>\<open>exists\<close> returns the client's number (0 or 1) on success and \<^verbatim>\<open>false\<close> otherwise.
\<close>

datatype exists_result = Count nat | JsFalse

definition cacheService_exists ::
  "bool \<Rightarrow> redis_call \<Rightarrow> 'v keyspace \<Rightarrow> string \<Rightarrow> js_error + exists_result" where
  "cacheService_exists redisAvailable c m key =
     (if \<not> redisAvailable then Inr JsFalse
      else try_catch (bind_r (redis_exists c m key) (\<lambda>n. Inr (Count n))) (\<lambda>error. Inr JsFalse))"

text \<open>A command fails when the client rejects it.\<close>

fun rejected :: "redis_call \<Rightarrow> bool" where
  "rejected (Rejects t msg) = True"
| "rejected c = False"

text \<open>
  \<^verbatim>\<open>cacheService.get\<close> is an \<^verbatim>\<open>async\<close> function: its promise settles when the client
  command does, or at once when Redis is marked unavailable.
\<close>

definition cacheService_get_promise ::
  "bool \<Rightarrow> redis_call \<Rightarrow> 'v keyspace \<Rightarrow> string \<Rightarrow> 'v option promise" where
  "cacheService_get_promise redisAvailable c m key =
     Settles (if redisAvailable then latency c else 0) (cacheService_get redisAvailable c m key)"

section \<open>\<^verbatim>\<open>CircuitBreaker\<close> (src/unnamed/part_002, lines 5-66)\<close>

datatype breaker_state = CLOSED | OPEN | HALF_OPEN

record circuit_breaker =
  failureThreshold :: nat
  recoveryTimeout :: int
  failureCount :: nat
  lastFailureTime :: "int option"
  state :: breaker_state
  successCount :: nat
  minSuccessCount :: nat

definition new_CircuitBreaker :: "nat \<Rightarrow> int \<Rightarrow> circuit_breaker" where
  "new_CircuitBreaker threshold timeout =
     \<lparr> failureThreshold = threshold, recoveryTimeout = timeout, failureCount = 0,
       lastFailureTime = None, state = CLOSED, successCount = 0, minSuccessCount = 3 \<rparr>"

text \<open>\<^verbatim>\<open>const redisCircuitBreaker = new CircuitBreaker()\<close>, with the default arguments.\<close>

definition redisCircuitBreaker :: circuit_breaker where
  "redisCircuitBreaker = new_CircuitBreaker 10 60000"

definition onSuccess :: "circuit_breaker \<Rightarrow> circuit_breaker" where
  "onSuccess b =
     (let b1 = b\<lparr>failureCount := 0\<rparr> in
      if state b1 = HALF_OPEN then
        (let b2 = b1\<lparr>successCount := successCount b1 + 1\<rparr> in
         if successCount b2 \<ge> minSuccessCount b2 then b2\<lparr>state := CLOSED\<rparr> else b2)
      else b1\<lparr>state := CLOSED\<rparr>)"

text \<open>The argument \<open>now\<close> is the value of \<^verbatim>\<open>Date.now()\<close> read inside \<^verbatim>\<open>onFailure\<close>.\<close>

definition onFailure :: "circuit_breaker \<Rightarrow> int \<Rightarrow> circuit_breaker" where
  "onFailure b now =
     (let b1 = b\<lparr>failureCount := failureCount b + 1, lastFailureTime := Some now\<rparr> in
      if failureCount b1 \<ge> failureThreshold b1 then b1\<lparr>state := OPEN\<rparr> else b1)"

text \<open>
  The first statement of \<^verbatim>\<open>execute\<close>: an OPEN breaker either moves to HALF_OPEN or
  throws. \<^verbatim>\<open>Date.now() - this.lastFailureTime\<close> reads \<^verbatim>\<open>null\<close> as 0.
\<close>

definition execute_guard :: "circuit_breaker \<Rightarrow> int \<Rightarrow> js_error + circuit_breaker" where
  "execute_guard b now =
     (if state b = OPEN then
        (if now - (case lastFailureTime b of None \<Rightarrow> 0 | Some t \<Rightarrow> t) > recoveryTimeout b
         then Inr (b\<lparr>state := HALF_OPEN, successCount := 0\<rparr>)
         else Inl (new_Error ''Circuit breaker is OPEN - Redis temporarily unavailable''))
      else Inr b)"

text \<open>
  \<^verbatim>\<open>execute(operation)\<close>. The operation acts on a state \<open>'s\<close> of its own, so that not
  invoking it is visible. \<open>now\<close> is the clock at the guard, \<open>now'\<close> the clock when the
  operation has failed.
\<close>

definition execute ::
  "circuit_breaker \<Rightarrow> int \<Rightarrow> ('s \<Rightarrow> (js_error + 'a) \<times> 's) \<Rightarrow> int \<Rightarrow> 's
     \<Rightarrow> (js_error + 'a) \<times> circuit_breaker \<times> 's" where
  "execute b now operation now' s =
     (case execute_guard b now of
        Inl error \<Rightarrow> (Inl error, b, s)
      | Inr b1 \<Rightarrow>
          (case operation s of
             (Inr result, s') \<Rightarrow> (Inr result, onSuccess b1, s')
           | (Inl error, s') \<Rightarrow> (Inl error, onFailure b1 now', s')))"

section \<open>\<^verbatim>\<open>PerformanceMonitor\<close> (src/unnamed/part_002, lines 71-129)\<close>

record performance_monitor =
  cacheHits :: nat
  cacheMisses :: nat
  redisErrors :: nat
  dbFallbacks :: nat
  avgResponseTime :: real
  totalRequests :: nat
  responseTimes :: "int list"

definition new_PerformanceMonitor :: performance_monitor where
  "new_PerformanceMonitor =
     \<lparr> cacheHits = 0, cacheMisses = 0, redisErrors = 0, dbFallbacks = 0,
       avgResponseTime = 0, totalRequests = 0, responseTimes = [] \<rparr>"

definition recordCacheHit :: "performance_monitor \<Rightarrow> performance_monitor" where
  "recordCacheHit pm = pm\<lparr>cacheHits := cacheHits pm + 1, totalRequests := totalRequests pm + 1\<rparr>"

definition recordCacheMiss :: "performance_monitor \<Rightarrow> performance_monitor" where
  "recordCacheMiss pm = pm\<lparr>cacheMisses := cacheMisses pm + 1, totalRequests := totalRequests pm + 1\<rparr>"

definition recordRedisError :: "performance_monitor \<Rightarrow> performance_monitor" where
  "recordRedisError pm = pm\<lparr>redisErrors := redisErrors pm + 1\<rparr>"

definition recordDbFallback :: "performance_monitor \<Rightarrow> performance_monitor" where
  "recordDbFallback pm = pm\<lparr>dbFallbacks := dbFallbacks pm + 1\<rparr>"

definition recordResponseTime :: "performance_monitor \<Rightarrow> int \<Rightarrow> performance_monitor" where
  "recordResponseTime pm time =
     (let pushed = responseTimes pm @ [time];
          kept = (if length pushed > 100 then tl pushed else pushed)
      in pm\<lparr>responseTimes := kept,
            avgResponseTime := real_of_int (sum_list kept) / real (length kept)\<rparr>)"

section \<open>The persistent store (src/BACKEND/src/dao/shortUrl.js)\<close>

text \<open>
  A document of the \<^verbatim>\<open>ShortUrl\<close> collection (\<^verbatim>\<open>_id\<close> and \<^verbatim>\<open>createdAt\<close> play no part
  here). The same shape is what the program caches under \<^verbatim>\<open>url:<code>\<close>.
\<close>

record url_doc =
  full_url :: string
  short_url :: string
  clicks :: int
  user :: "string option"

text \<open>\<^verbatim>\<open>mongoose.connection.readyState\<close> and its rendering in a template string.\<close>

datatype ready_state = Disconnected | Connected | Connecting | Disconnecting | Uninitialized

fun ready_code :: "ready_state \<Rightarrow> string" where
  "ready_code Disconnected = ''0''"
| "ready_code Connected = ''1''"
| "ready_code Connecting = ''2''"
| "ready_code Disconnecting = ''3''"
| "ready_code Uninitialized = ''99''"

record database =
  readyState :: ready_state
  docs :: "string \<rightharpoonup> url_doc"

text \<open>
  How MongoDB answers one operation, chosen by the environment for every call: it
  answers after some milliseconds (an insert of an existing \<^verbatim>\<open>short_url\<close> is then
  refused by the unique index, error code 11000), it never answers, or the driver rejects
  with an error of its own. An operation that answers takes effect whether or not the
  caller has stopped waiting.
\<close>

datatype mongo_call = Answers nat | Hangs | Fails nat js_error

fun mongo_create :: "mongo_call \<Rightarrow> database \<Rightarrow> url_doc \<Rightarrow> url_doc promise \<times> database" where
  "mongo_create (Answers t) db d =
     (if docs db (short_url d) \<noteq> None
      then (Settles t (Inl (Error (Some 11000) ''E11000 duplicate key error collection'')), db)
      else (Settles t (Inr d), db\<lparr>docs := (docs db)(short_url d \<mapsto> d)\<rparr>))"
| "mongo_create Hangs db d = (Never, db)"
| "mongo_create (Fails t e) db d = (Settles t (Inl e), db)"

text \<open>\<^verbatim>\<open>findOneAndUpdate({short_url}, {$inc: {clicks: 1}}, {new: true})\<close>.\<close>

fun mongo_findOneAndUpdate ::
  "mongo_call \<Rightarrow> database \<Rightarrow> string \<Rightarrow> url_doc option promise \<times> database" where
  "mongo_findOneAndUpdate (Answers t) db shortUrl =
     (case docs db shortUrl of
        None \<Rightarrow> (Settles t (Inr None), db)
      | Some d \<Rightarrow>
          (let d' = d\<lparr>clicks := clicks d + 1\<rparr>
           in (Settles t (Inr (Some d')), db\<lparr>docs := (docs db)(shortUrl \<mapsto> d')\<rparr>)))"
| "mongo_findOneAndUpdate Hangs db shortUrl = (Never, db)"
| "mongo_findOneAndUpdate (Fails t e) db shortUrl = (Settles t (Inl e), db)"

definition checkConnectionHealth :: "database \<Rightarrow> js_error + bool" where
  "checkConnectionHealth db =
     (if readyState db \<noteq> Connected
      then Inl (new_Error (''Database not connected. State: '' @ ready_code (readyState db)))
      else Inr True)"

text \<open>The \<^verbatim>\<open>catch\<close> blocks of \<^verbatim>\<open>saveShortUrl\<close> and \<^verbatim>\<open>getShortUrl\<close>: what is rethrown.\<close>

definition save_rethrown :: "js_error \<Rightarrow> js_error" where
  "save_rethrown error =
     (if code error = Some 11000 then new_Error ''Short URL already exists''
      else if js_includes (message error) ''timeout''
        then new_Error ''Database operation timeout - please try again''
      else if js_includes (message error) ''not connected''
        then new_Error ''Database connection error - please try again''
      else new_Error (''Database error: '' @ message error))"

definition get_rethrown :: "js_error \<Rightarrow> js_error" where
  "get_rethrown error =
     (if js_includes (message error) ''timeout''
        then new_Error ''Database operation timeout - please try again''
      else if js_includes (message error) ''not connected''
        then new_Error ''Database connection error - please try again''
      else new_Error (''Database error: '' @ message error))"

fun map_rejection :: "(js_error \<Rightarrow> js_error) \<Rightarrow> 'a promise \<Rightarrow> 'a promise" where
  "map_rejection f (Settles t (Inl e)) = Settles t (Inl (f e))"
| "map_rejection f p = p"

definition saveShortUrl ::
  "mongo_call \<Rightarrow> database \<Rightarrow> string \<Rightarrow> string \<Rightarrow> string option \<Rightarrow> url_doc promise \<times> database" where
  "saveShortUrl c db shortUrl longUrl userId =
     (case checkConnectionHealth db of
        Inl error \<Rightarrow> (Settles 0 (Inl (save_rethrown error)), db)
      | Inr ok \<Rightarrow>
          (let newUrl = \<lparr> full_url = longUrl, short_url = shortUrl, clicks = 0,
                          user = (if userId = Some [] then None else userId) \<rparr>;
               (savePromise, db') = mongo_create c db newUrl
           in (map_rejection save_rethrown (race_timeout savePromise 5000 ''Database save timeout''),
               db')))"

text \<open>The dao's \<^verbatim>\<open>getShortUrl\<close>, under the name the cache service imports it by.\<close>

definition getShortUrlFromDB ::
  "mongo_call \<Rightarrow> database \<Rightarrow> string \<Rightarrow> url_doc option promise \<times> database" where
  "getShortUrlFromDB c db shortUrl =
     (case checkConnectionHealth db of
        Inl error \<Rightarrow> (Settles 0 (Inl (get_rethrown error)), db)
      | Inr ok \<Rightarrow>
          (let (findPromise, db') = mongo_findOneAndUpdate c db shortUrl
           in (map_rejection get_rethrown (race_timeout findPromise 1500 ''Database query timeout''),
               db')))"

text \<open>\<^verbatim>\<open>await Promise.race([p, timeout])\<close>: the race always settles.\<close>

definition await_race :: "'a promise \<Rightarrow> nat \<Rightarrow> string \<Rightarrow> js_error + 'a" where
  "await_race p ms msg =
     (case race_timeout p ms msg of Settles t r \<Rightarrow> r | Never \<Rightarrow> Inl (new_Error msg))"

section \<open>\<^verbatim>\<open>urlCacheService\<close> (src/unnamed/part_002, lines 133-374)\<close>

record analytics =
  totalClicks :: int
  dailyClicks :: "(string \<times> int) list"

record bucket =
  tokens :: real
  ts :: int

text \<open>
  The module state of redis.config.js: the flag \<^verbatim>\<open>redisAvailable\<close> (false until the
  client connects) and the four keyspaces the program writes.
\<close>

record redis_state =
  redisAvailable :: bool
  urlKeys :: "url_doc keyspace"
  bucketKeys :: "bucket keyspace"
  analyticsKeys :: "analytics keyspace"
  clickKeys :: counters

text \<open>The process-wide state the read and write paths share.\<close>

record world =
  breaker :: circuit_breaker
  monitor :: performance_monitor
  cache :: redis_state
  store :: database

definition SHORT_URL :: "string \<Rightarrow> string" where
  "SHORT_URL shortUrl = ''url:'' @ shortUrl"

definition ANALYTICS :: "string \<Rightarrow> string" where
  "ANALYTICS shortUrl = ''analytics:'' @ shortUrl"

definition DAILY_CLICKS :: "string \<Rightarrow> string \<Rightarrow> string" where
  "DAILY_CLICKS shortUrl date = ''clicks:'' @ shortUrl @ '':'' @ date"

definition TTL_SHORT_URL :: nat where "TTL_SHORT_URL = 600"
definition TTL_ANALYTICS :: nat where "TTL_ANALYTICS = 600"
definition TTL_DAILY_CLICKS :: nat where "TTL_DAILY_CLICKS = 86400"

text \<open>
  What the environment contributes to one call of \<^verbatim>\<open>getShortUrl\<close>: the clock readings,
  the answer of every Redis command and of every MongoDB operation the call may issue,
  and the date string of \<^verbatim>\<open>new Date().toISOString().split('T')[0]\<close>.
\<close>

record read_env =
  now_start :: int
  now_guard :: int
  cache_call :: redis_call
  now_failure :: int
  primary_call :: mongo_call
  repopulate_call :: redis_call
  fallback_call :: mongo_call
  now_end :: int
  today :: string
  incr_call :: redis_call
  expire_call :: redis_call
  analytics_get_call :: redis_call
  analytics_set_call :: redis_call

text \<open>\<^verbatim>\<open>analytics.dailyClicks[today] = (analytics.dailyClicks[today] || 0) + 1\<close>.\<close>

fun bump_day :: "string \<Rightarrow> (string \<times> int) list \<Rightarrow> (string \<times> int) list" where
  "bump_day d [] = [(d, 1)]"
| "bump_day d ((k, n) # rest) = (if k = d then (k, n + 1) # rest else (k, n) # bump_day d rest)"

text \<open>
  \<^verbatim>\<open>incrementClicks\<close>: the whole body is inside \<^verbatim>\<open>try/catch\<close>, the error is logged.
  It touches the daily counter and the analytics record only.
\<close>

definition incrementClicks :: "redis_state \<Rightarrow> read_env \<Rightarrow> string \<Rightarrow> redis_state" where
  "incrementClicks R env shortUrl =
     (let clickKey = DAILY_CLICKS shortUrl (today env);
          (counted, cs) = cacheService_incr (redisAvailable R) (incr_call env) (expire_call env)
                            (clickKeys R) clickKey TTL_DAILY_CLICKS;
          R1 = R\<lparr>clickKeys := cs\<rparr>;
          analyticsKey = ANALYTICS shortUrl
      in case counted of
           Inl error \<Rightarrow> R1
         | Inr n \<Rightarrow>
             (case cacheService_get (redisAvailable R1) (analytics_get_call env)
                     (analyticsKeys R1) analyticsKey of
                Inl error \<Rightarrow> R1
              | Inr loaded \<Rightarrow>
                  (let a = (case loaded of
                              None \<Rightarrow> \<lparr> totalClicks = 0, dailyClicks = [] \<rparr>
                            | Some found \<Rightarrow> found);
                       a' = \<lparr> totalClicks = totalClicks a + 1,
                              dailyClicks = bump_day (today env) (dailyClicks a) \<rparr>;
                       (stored, m) = cacheService_set (redisAvailable R1) (analytics_set_call env)
                                       (analyticsKeys R1) analyticsKey a' TTL_ANALYTICS
                   in R1\<lparr>analyticsKeys := m\<rparr>)))"

definition cacheNewUrl :: "redis_state \<Rightarrow> redis_call \<Rightarrow> string \<Rightarrow> url_doc \<Rightarrow> redis_state" where
  "cacheNewUrl R c shortUrl urlData =
     R\<lparr>urlKeys := snd (cacheService_set (redisAvailable R) c (urlKeys R)
                          (SHORT_URL shortUrl) urlData TTL_SHORT_URL)\<rparr>"

text \<open>
  Lines 157-162 of \<^verbatim>\<open>getShortUrl\<close>: the cache read, raced against 2000 ms, run through
  the circuit breaker.
\<close>

definition cache_lookup :: "world \<Rightarrow> read_env \<Rightarrow> string \<Rightarrow> (js_error + url_doc option) \<times> world" where
  "cache_lookup w env shortUrl =
     (let cacheKey = SHORT_URL shortUrl;
          operation = (\<lambda>u :: unit.
            (await_race (cacheService_get_promise (redisAvailable (cache w)) (cache_call env)
                           (urlKeys (cache w)) cacheKey) 2000 ''Cache timeout'', u));
          (r, b, u) = execute (breaker w) (now_guard env) operation (now_failure env) ()
      in (r, w\<lparr>breaker := b\<rparr>))"

text \<open>Lines 191-210: the \<^verbatim>\<open>catch\<close> block, with its own \<^verbatim>\<open>try/catch\<close> inside.\<close>

definition fallback_to_database ::
  "world \<Rightarrow> read_env \<Rightarrow> string \<Rightarrow> (js_error + url_doc option) \<times> world" where
  "fallback_to_database w env shortUrl =
     (let w1 = w\<lparr>monitor := recordDbFallback (recordRedisError (monitor w))\<rparr>;
          (p, db') = getShortUrlFromDB (fallback_call env) (store w1) shortUrl;
          w2 = w1\<lparr>store := db'\<rparr>;
          w3 = w2\<lparr>monitor := recordResponseTime (monitor w2) (now_end env - now_start env)\<rparr>
      in case await_race p 2500 ''Fallback timeout'' of
           Inr fallbackResult \<Rightarrow> (Inr fallbackResult, w3)
         | Inl fallbackError \<Rightarrow> (Inr None, w3))"

text \<open>
  \<^verbatim>\<open>urlCacheService.getShortUrl\<close>. The two fire-and-forget calls (\<^verbatim>\<open>incrementClicks\<close>
  on a hit, \<^verbatim>\<open>cacheService.set\<close> after a store hit) are run to their end here: the state
  returned is the one reached when they have settled.
\<close>

definition getShortUrl :: "world \<Rightarrow> read_env \<Rightarrow> string \<Rightarrow> (js_error + url_doc option) \<times> world" where
  "getShortUrl w env shortUrl =
     (case cache_lookup w env shortUrl of
        (Inl error, w1) \<Rightarrow> fallback_to_database w1 env shortUrl
      | (Inr (Some urlData), w1) \<Rightarrow>
          (let w2 = w1\<lparr>monitor := recordCacheHit (monitor w1)\<rparr>;
               w3 = w2\<lparr>cache := incrementClicks (cache w2) env shortUrl\<rparr>;
               w4 = w3\<lparr>monitor := recordResponseTime (monitor w3) (now_end env - now_start env)\<rparr>
           in (Inr (Some urlData), w4))
      | (Inr None, w1) \<Rightarrow>
          (let w2 = w1\<lparr>monitor := recordCacheMiss (monitor w1)\<rparr>;
               (p, db') = getShortUrlFromDB (primary_call env) (store w2) shortUrl;
               w3 = w2\<lparr>store := db'\<rparr>
           in case await_race p 3000 ''DB timeout'' of
                Inl error \<Rightarrow> fallback_to_database w3 env shortUrl
              | Inr urlData \<Rightarrow>
                  (let w4 = (case urlData of
                               None \<Rightarrow> w3
                             | Some d \<Rightarrow> w3\<lparr>cache := cacheNewUrl (cache w3) (repopulate_call env) shortUrl d\<rparr>);
                       w5 = w4\<lparr>monitor := recordResponseTime (monitor w4) (now_end env - now_start env)\<rparr>
                   in (Inr urlData, w5))))"

subsection \<open>\<^verbatim>\<open>checkRateLimit\<close> (lines 268-314)\<close>

text \<open>
  The second parameter of \<^verbatim>\<open>checkRateLimit\<close> is a number or an object; the destructuring
  supplies the defaults. JavaScript numbers are modelled by the reals: the arithmetic below
  is exact, not IEEE 754.
\<close>

datatype rate_options = AsNumber real | AsObject "real option" "real option"

fun destructure :: "rate_options \<Rightarrow> real \<times> real" where
  "destructure (AsNumber n) = (n, 75)"
| "destructure (AsObject sustained burst) =
     ((case sustained of None \<Rightarrow> 150 | Some r \<Rightarrow> r), (case burst of None \<Rightarrow> 75 | Some b \<Rightarrow> b))"

record rate_env =
  rate_now :: int
  bucket_get_call :: redis_call
  bucket_set_call :: redis_call

text \<open>
  The object \<^verbatim>\<open>checkRateLimit\<close> returns. \<open>tokens_left\<close> is its field \<^verbatim>\<open>tokens\<close>;
  \<^verbatim>\<open>resetTime\<close> is absent from the object returned by the \<^verbatim>\<open>catch\<close> block.
\<close>

record rate_limit =
  allowed :: bool
  tokens_left :: real
  capacity :: real
  remaining :: real
  resetTime :: "int option"

definition fail_open :: "real \<Rightarrow> real \<Rightarrow> rate_limit" where
  "fail_open sustainedRps burstCapacity =
     \<lparr> allowed = True, tokens_left = sustainedRps, capacity = sustainedRps + burstCapacity,
       remaining = sustainedRps, resetTime = None \<rparr>"

text \<open>
  Line 279: \<^verbatim>\<open>await cacheService.get(key) || { tokens: sustainedRps + burstCapacity, ts: now }\<close>.
\<close>

definition bucket_or_default :: "bucket option \<Rightarrow> real \<Rightarrow> real \<Rightarrow> int \<Rightarrow> bucket" where
  "bucket_or_default loaded sustainedRps burstCapacity now =
     (case loaded of
        None \<Rightarrow> \<lparr> tokens = sustainedRps + burstCapacity, ts = now \<rparr>
      | Some found \<Rightarrow> found)"

text \<open>Lines 282-286: the refill.\<close>

definition refill_tokens :: "real \<Rightarrow> real \<Rightarrow> bucket \<Rightarrow> int \<Rightarrow> real" where
  "refill_tokens sustainedRps burstCapacity state0 now =
     (let elapsedSec = max 0 (real_of_int (now - ts state0) / 1000)
      in min (sustainedRps + burstCapacity) (tokens state0 + elapsedSec * sustainedRps))"

definition checkRateLimit ::
  "redis_state \<Rightarrow> rate_env \<Rightarrow> string \<Rightarrow> rate_options \<Rightarrow> rate_limit \<times> redis_state" where
  "checkRateLimit R env ip options =
     (let (sustainedRps, burstCapacity) = destructure options;
          key = ''tb:'' @ ip;
          now = rate_now env
      in case cacheService_get (redisAvailable R) (bucket_get_call env) (bucketKeys R) key of
           Inl error \<Rightarrow> (fail_open sustainedRps burstCapacity, R)
         | Inr loaded \<Rightarrow>
             (let state0 = bucket_or_default loaded sustainedRps burstCapacity now;
                  refilled = refill_tokens sustainedRps burstCapacity state0 now;
                  admit = (refilled \<ge> 1);
                  tokens' = (if admit then refilled - 1 else refilled);
                  newState = \<lparr> tokens = tokens', ts = now \<rparr>;
                  (stored, m) = cacheService_set (redisAvailable R) (bucket_set_call env)
                                  (bucketKeys R) key newState 60;
                  R' = R\<lparr>bucketKeys := m\<rparr>;
                  resetSeconds = \<lceil>(sustainedRps + burstCapacity - tokens') / max 1 sustainedRps\<rceil>
              in case stored of
                   Inl error \<Rightarrow> (fail_open sustainedRps burstCapacity, R')
                 | Inr ok \<Rightarrow>
                     (\<lparr> allowed = admit, tokens_left = tokens',
                        capacity = sustainedRps + burstCapacity,
                        remaining = real_of_int \<lfloor>tokens'\<rfloor>,
                        resetTime = Some (now + resetSeconds * 1000) \<rparr>, R')))"

section \<open>\<^verbatim>\<open>createShortUrlWithoutUser\<close> (src/BACKEND/src/services/shorturlService.js)\<close>

text \<open>
  What the environment contributes to one call: the identifier \<^verbatim>\<open>generateNanoId(8)\<close>
  returns at each attempt, MongoDB's answer to the insert of each attempt, and the answer
  to the \<^verbatim>\<open>SETEX\<close> of the degrade path.
\<close>

record create_env =
  generateNanoId :: "nat \<Rightarrow> string"
  save_call :: "nat \<Rightarrow> mongo_call"
  degrade_call :: redis_call

text \<open>
  The timers the call sets: the backoff it waits for between two attempts, and the
  detached timer (100 ms) that starts the background persistence of a code and its URL.
\<close>

datatype timer = Backoff nat | BackgroundPersistence nat string string

definition maxCollisions :: nat where
  "maxCollisions = 5"

text \<open>Lines 31-36: the insert raced against 2500 ms.\<close>

definition quick_save :: "world \<Rightarrow> mongo_call \<Rightarrow> string \<Rightarrow> string \<Rightarrow> (js_error + url_doc) \<times> world" where
  "quick_save w c shortUrl url =
     (let (savePromise, db') = saveShortUrl c (store w) shortUrl url None
      in (await_race savePromise 2500 ''Save quick-timeout'', w\<lparr>store := db'\<rparr>))"

text \<open>
  Lines 50-82: the mapping is written to the cache inside a \<^verbatim>\<open>try/catch\<close> that logs, and
  the background persistence is scheduled.
\<close>

definition degrade :: "world \<Rightarrow> redis_call \<Rightarrow> string \<Rightarrow> string \<Rightarrow> world \<times> timer" where
  "degrade w c shortUrl url =
     (let cacheKey = ''url:'' @ shortUrl;
          urlData = \<lparr> full_url = url, short_url = shortUrl, clicks = 0, user = None \<rparr>;
          (stored, m) = cacheService_set (redisAvailable (cache w)) c (urlKeys (cache w))
                          cacheKey urlData 600
      in (w\<lparr>cache := (cache w)\<lparr>urlKeys := m\<rparr>\<rparr>, BackgroundPersistence 100 shortUrl url))"

text \<open>
  The \<^verbatim>\<open>for (let attempt = 0; attempt <= maxCollisions; attempt++)\<close> loop and the
  \<^verbatim>\<open>throw\<close> after it. \<open>timers\<close> collects the timers set so far.
\<close>

function generated_code_loop ::
  "world \<Rightarrow> create_env \<Rightarrow> string \<Rightarrow> timer list \<Rightarrow> nat \<Rightarrow> (js_error + string) \<times> world \<times> timer list" where
  "generated_code_loop w env url timers attempt =
     (if attempt \<le> maxCollisions then
        (let shortUrl = generateNanoId env attempt in
         if shortUrl = [] then (Inl (new_Error ''Short URL not generated''), w, timers)
         else
           (case quick_save w (save_call env attempt) shortUrl url of
              (Inr saved, w1) \<Rightarrow> (Inr shortUrl, w1, timers)
            | (Inl error, w1) \<Rightarrow>
                if message error = ''Short URL already exists'' \<and> attempt < maxCollisions
                then generated_code_loop w1 env url (timers @ [Backoff (2 ^ attempt * 10)]) (attempt + 1)
                else (case degrade w1 (degrade_call env) shortUrl url of
                        (w2, t) \<Rightarrow> (Inr shortUrl, w2, timers @ [t]))))
      else (Inl (new_Error ''Failed to generate unique short URL after maximum attempts''), w, timers))"
  by pat_completeness auto
termination
  by (relation "measure (\<lambda>(w, env, url, timers, attempt). Suc maxCollisions - attempt)") auto

declare generated_code_loop.simps [simp del]

text \<open>
  \<^verbatim>\<open>if (customShortId)\<close>: an absent or empty identifier takes the generated-code path.
\<close>

definition createShortUrlWithoutUser ::
  "world \<Rightarrow> create_env \<Rightarrow> string \<Rightarrow> string option \<Rightarrow> (js_error + string) \<times> world \<times> timer list" where
  "createShortUrlWithoutUser w env url customShortId =
     (case customShortId of
        None \<Rightarrow> generated_code_loop w env url [] 0
      | Some custom \<Rightarrow>
          if custom = [] then generated_code_loop w env url [] 0
          else
            (case quick_save w (save_call env 0) custom url of
               (Inr saved, w1) \<Rightarrow> (Inr custom, w1, [])
             | (Inl error, w1) \<Rightarrow>
                 if message error = ''Short URL already exists''
                 then (Inl (new_Error ''Custom short URL already exists - please choose a different one''),
                       w1, [])
                 else (Inl error, w1, [])))"






section \<open>The per-IP rate limiter (src/BACKEND/src/middleware/rateLimiter.js)\<close>

record request =
  rid :: nat
  path :: string
  x_forwarded_for :: "string option"
  req_ip :: "string option"
  remoteAddress :: "string option"

text \<open>
  The JSON bodies of the rejections, with \<^verbatim>\<open>error\<close> first and \<^verbatim>\<open>retryAfter\<close> second;
  \<open>ServerBusy\<close> then carries \<^verbatim>\<open>activeConnections\<close> and \<^verbatim>\<open>maxConnections\<close>,
  \<open>ServerOverloaded\<close> carries \<^verbatim>\<open>queueSize\<close> and \<^verbatim>\<open>maxQueueSize\<close>. The \<^verbatim>\<open>RateLimit-*\<close>
  headers are not modelled.
\<close>

datatype body =
    TooManyRequests string "int option"
  | GlobalLimitExceeded string int
  | ServerBusy string int int nat
  | ServerOverloaded string int nat nat

record response =
  status :: nat
  json :: body

definition is_space :: "char \<Rightarrow> bool" where
  "is_space c = (c = CHR '' '' \<or> c = CHR 0x09 \<or> c = CHR 0x0A \<or> c = CHR 0x0B \<or> c = CHR 0x0C \<or> c = CHR 0x0D)"

definition trim :: "string \<Rightarrow> string" where
  "trim s = rev (dropWhile is_space (rev (dropWhile is_space s)))"

fun truthy_or :: "string option \<Rightarrow> string \<Rightarrow> string" where
  "truthy_or None d = d"
| "truthy_or (Some s) d = (if s = [] then d else s)"

text \<open>
  \<^verbatim>\<open>xff?.split(',')[0]?.trim() || req.ip || req.connection.remoteAddress || 'unknown'\<close>
  (Node joins repeated \<^verbatim>\<open>X-Forwarded-For\<close> headers into one string).
\<close>

definition clientIp :: "request \<Rightarrow> string" where
  "clientIp req =
     truthy_or (map_option (\<lambda>xff. trim (takeWhile (\<lambda>c. c \<noteq> CHR '','') xff)) (x_forwarded_for req))
       (truthy_or (req_ip req) (truthy_or (remoteAddress req) ''unknown''))"

record limiter_options =
  opt_max :: "real option"
  opt_burstCapacity :: "real option"
  opt_message :: "string option"

text \<open>
  The middleware \<^verbatim>\<open>rateLimiter(options)\<close> returns. \<open>None\<close>: it called \<^verbatim>\<open>next()\<close>;
  \<open>Some r\<close>: it answered with \<open>r\<close>. \<open>now'\<close> is the clock read for \<^verbatim>\<open>retryAfter\<close>.
\<close>

definition rateLimiter ::
  "limiter_options \<Rightarrow> redis_state \<Rightarrow> rate_env \<Rightarrow> int \<Rightarrow> request \<Rightarrow> response option \<times> redis_state" where
  "rateLimiter options R env now' req =
     (let maxRps = (case opt_max options of None \<Rightarrow> 300 | Some m \<Rightarrow> m);
          msg = (case opt_message options of
                   None \<Rightarrow> ''Too many requests from this IP, please try again later.''
                 | Some m \<Rightarrow> m);
          burst = (case opt_burstCapacity options of None \<Rightarrow> 800 | Some b \<Rightarrow> b);
          (rateLimit, R') = checkRateLimit R env (clientIp req) (AsObject (Some maxRps) (Some burst))
      in if \<not> allowed rateLimit
         then (Some \<lparr> status = 429,
                      json = TooManyRequests msg
                        (map_option (\<lambda>t. \<lceil>real_of_int (t - now') / 1000\<rceil>) (resetTime rateLimit)) \<rparr>, R')
         else (None, R'))"

section \<open>The admission middlewares (src/unnamed/part_000, lines 63-190)\<close>

text \<open>
  A response object is an event emitter: \<^verbatim>\<open>res.on(event, f)\<close> appends \<open>f\<close> to the
  listeners of the event, \<^verbatim>\<open>removeListener\<close> removes the instance added last, and
  emitting an event calls the listeners registered at that moment, in order. Two kinds of
  listener are registered: the arrow functions of lines 104-109, which both do
  \<^verbatim>\<open>activeConnections--\<close>, and the closure \<^verbatim>\<open>onDone\<close> of the response.
\<close>

datatype res_event = Finish | Close

datatype listener = DecrementActive | OnDone

type_synonym listener_table = "nat \<Rightarrow> res_event \<Rightarrow> listener list"

definition res_on :: "nat \<Rightarrow> res_event \<Rightarrow> listener \<Rightarrow> listener_table \<Rightarrow> listener_table" where
  "res_on r ev f L = L(r := (L r)(ev := L r ev @ [f]))"

definition removeListener :: "nat \<Rightarrow> res_event \<Rightarrow> listener \<Rightarrow> listener_table \<Rightarrow> listener_table" where
  "removeListener r ev f L = L(r := (L r)(ev := rev (remove1 f (rev (L r ev)))))"

text \<open>
  The module state of the server: the rate limiter's Redis, the counters and the queue of
  lines 74-131, the listeners of every response, the rejections written so far (by
  response), and the requests for which the last admission middleware has called
  \<^verbatim>\<open>next()\<close>, in that order.
\<close>

record server =
  limiter_cache :: redis_state
  globalRequestCount :: nat
  globalWindowStart :: int
  activeConnections :: int
  connectionRejections :: nat
  requestQueue :: "request list"
  processingRequests :: int
  queueRejections :: nat
  listeners :: listener_table
  sent :: "nat \<rightharpoonup> response"
  routed :: "nat list"

definition GLOBAL_RATE_LIMIT :: nat where "GLOBAL_RATE_LIMIT = 180"
definition GLOBAL_WINDOW_MS :: int where "GLOBAL_WINDOW_MS = 1000"
definition MAX_CONNECTIONS :: nat where "MAX_CONNECTIONS = 5000"
definition MAX_QUEUE_SIZE :: nat where "MAX_QUEUE_SIZE = 5000"
definition MAX_CONCURRENT_REQUESTS :: nat where "MAX_CONCURRENT_REQUESTS = 1000"

text \<open>The options of line 64.\<close>

definition limiter_config :: limiter_options where
  "limiter_config =
     \<lparr> opt_max = Some 150, opt_burstCapacity = Some 300,
       opt_message = Some ''Too many requests from this IP, please try again later.'' \<rparr>"

text \<open>The clock readings and Redis answers one request meets on its way.\<close>

record mw_env =
  limiter_env :: rate_env
  now_retry :: int
  now_global :: int

text \<open>
  Each middleware returns whether it called \<^verbatim>\<open>next()\<close>, and the new state. Lines 64-71:
\<close>

definition perIpRateLimiter :: "server \<Rightarrow> mw_env \<Rightarrow> request \<Rightarrow> bool \<times> server" where
  "perIpRateLimiter s env req =
     (case rateLimiter limiter_config (limiter_cache s) (limiter_env env) (now_retry env) req of
        (None, R') \<Rightarrow> (True, s\<lparr>limiter_cache := R'\<rparr>)
      | (Some r, R') \<Rightarrow> (False, s\<lparr>limiter_cache := R', sent := (sent s)(rid req \<mapsto> r)\<rparr>))"

text \<open>Lines 79-95.\<close>

definition globalRateLimiter :: "server \<Rightarrow> mw_env \<Rightarrow> request \<Rightarrow> bool \<times> server" where
  "globalRateLimiter s env req =
     (let now = now_global env;
          s1 = (if now - globalWindowStart s \<ge> GLOBAL_WINDOW_MS
                then s\<lparr>globalRequestCount := 0, globalWindowStart := now\<rparr> else s)
      in if globalRequestCount s1 \<ge> GLOBAL_RATE_LIMIT
         then (False, s1\<lparr>sent := (sent s1)(rid req \<mapsto>
                 \<lparr> status = 429,
                   json = GlobalLimitExceeded ''Global rate limit exceeded, please try again later.''
                     \<lceil>real_of_int (globalWindowStart s1 + GLOBAL_WINDOW_MS - now) / 1000\<rceil> \<rparr>)\<rparr>)
         else (True, s1\<lparr>globalRequestCount := globalRequestCount s1 + 1\<rparr>))"

text \<open>Lines 102-124.\<close>

definition connectionLimiter :: "server \<Rightarrow> request \<Rightarrow> bool \<times> server" where
  "connectionLimiter s req =
     (let s1 = s\<lparr>activeConnections := activeConnections s + 1\<rparr>;
          s2 = s1\<lparr>listeners := res_on (rid req) Finish DecrementActive (listeners s1)\<rparr>;
          s3 = s2\<lparr>listeners := res_on (rid req) Close DecrementActive (listeners s2)\<rparr>
      in if activeConnections s3 > int MAX_CONNECTIONS
         then (False, s3\<lparr>connectionRejections := connectionRejections s3 + 1,
                 sent := (sent s3)(rid req \<mapsto>
                   \<lparr> status = 503,
                     json = ServerBusy ''Server busy, please try again later'' 1
                              (activeConnections s3) MAX_CONNECTIONS \<rparr>)\<rparr>)
         else (True, s3))"

text \<open>
  Lines 134-151. The \<^verbatim>\<open>next\<close> stored with a queued request continues after the queue
  middleware, the last of the admission chain.
\<close>

definition processNextQueuedRequest :: "server \<Rightarrow> server" where
  "processNextQueuedRequest s =
     (case requestQueue s of
        [] \<Rightarrow> s
      | entry # rest \<Rightarrow>
          if processingRequests s \<ge> int MAX_CONCURRENT_REQUESTS then s
          else
            (let s1 = s\<lparr>requestQueue := rest, processingRequests := processingRequests s + 1\<rparr>;
                 s2 = s1\<lparr>listeners := res_on (rid entry) Finish OnDone (listeners s1)\<rparr>;
                 s3 = s2\<lparr>listeners := res_on (rid entry) Close OnDone (listeners s2)\<rparr>
             in s3\<lparr>routed := routed s3 @ [rid entry]\<rparr>))"

text \<open>Lines 153-190.\<close>

definition requestQueueing :: "server \<Rightarrow> request \<Rightarrow> bool \<times> server" where
  "requestQueueing s req =
     (if processingRequests s \<ge> int MAX_CONCURRENT_REQUESTS then
        (if length (requestQueue s) \<ge> MAX_QUEUE_SIZE
         then (False, s\<lparr>queueRejections := queueRejections s + 1,
                 sent := (sent s)(rid req \<mapsto>
                   \<lparr> status = 503,
                     json = ServerOverloaded ''Server overloaded, please try again later'' 2
                              (length (requestQueue s)) MAX_QUEUE_SIZE \<rparr>)\<rparr>)
         else
           (let isHealthCheck = (path req = ''/health'' \<or> path req = ''/metrics'');
                s1 = (if isHealthCheck
                      then s\<lparr>requestQueue := req # requestQueue s\<rparr>
                      else s\<lparr>requestQueue := requestQueue s @ [req]\<rparr>)
            in (False, processNextQueuedRequest s1)))
      else
        (let s1 = s\<lparr>processingRequests := processingRequests s + 1\<rparr>;
             s2 = s1\<lparr>listeners := res_on (rid req) Finish OnDone (listeners s1)\<rparr>;
             s3 = s2\<lparr>listeners := res_on (rid req) Close OnDone (listeners s2)\<rparr>
         in (True, s3)))"

text \<open>
  The chain of \<^verbatim>\<open>app.use\<close> calls, in the order of registration (lines 64, 79, 102, 153).
  Express runs a request through it from the first on; a middleware that does not call
  \<^verbatim>\<open>next()\<close> ends the run. \<open>dispatch\<close> returns the middlewares that ran. The rate
  limiter awaits Redis before it calls \<^verbatim>\<open>next()\<close>; a request is followed here from the
  first middleware to the last with no other request in between.
\<close>

datatype stage = PerIpRateLimiter | GlobalRateLimiter | ConnectionLimiter | RequestQueue

definition pipeline :: "stage list" where
  "pipeline = [PerIpRateLimiter, GlobalRateLimiter, ConnectionLimiter, RequestQueue]"

fun run_stage :: "stage \<Rightarrow> server \<Rightarrow> mw_env \<Rightarrow> request \<Rightarrow> bool \<times> server" where
  "run_stage PerIpRateLimiter s env req = perIpRateLimiter s env req"
| "run_stage GlobalRateLimiter s env req = globalRateLimiter s env req"
| "run_stage ConnectionLimiter s env req = connectionLimiter s req"
| "run_stage RequestQueue s env req = requestQueueing s req"

fun dispatch :: "stage list \<Rightarrow> server \<Rightarrow> mw_env \<Rightarrow> request \<Rightarrow> stage list \<times> server" where
  "dispatch [] s env req = ([], s\<lparr>routed := routed s @ [rid req]\<rparr>)"
| "dispatch (m # ms) s env req =
     (case run_stage m s env req of
        (True, s') \<Rightarrow> (case dispatch ms s' env req of (later, s'') \<Rightarrow> (m # later, s''))
      | (False, s') \<Rightarrow> ([m], s'))"

definition handle_request :: "server \<Rightarrow> mw_env \<Rightarrow> request \<Rightarrow> stage list \<times> server" where
  "handle_request s env req = dispatch pipeline s env req"

text \<open>The listeners, and the emission of an event on a response.\<close>

fun run_listener :: "nat \<Rightarrow> server \<Rightarrow> listener \<Rightarrow> server" where
  "run_listener r s DecrementActive = s\<lparr>activeConnections := activeConnections s - 1\<rparr>"
| "run_listener r s OnDone =
     (let s1 = s\<lparr>listeners := removeListener r Finish OnDone (listeners s)\<rparr>;
          s2 = s1\<lparr>listeners := removeListener r Close OnDone (listeners s1)\<rparr>;
          s3 = s2\<lparr>processingRequests := processingRequests s2 - 1\<rparr>
      in processNextQueuedRequest s3)"

definition emit :: "nat \<Rightarrow> res_event \<Rightarrow> server \<Rightarrow> server" where
  "emit r ev s = foldl (run_listener r) s (listeners s r ev)"

text \<open>
  What happens to the server: a request arrives, or Node emits \<^verbatim>\<open>finish\<close> (the response
  has been handed to the system) or \<^verbatim>\<open>close\<close> (the response is completed, or its
  connection was terminated) on a response.
\<close>

datatype input = Arrives request mw_env | Emits nat res_event

fun server_step :: "server \<Rightarrow> input \<Rightarrow> server" where
  "server_step s (Arrives req env) = snd (handle_request s env req)"
| "server_step s (Emits r ev) = emit r ev s"

definition run_server :: "server \<Rightarrow> input list \<Rightarrow> server" where
  "run_server s inputs = foldl server_step s inputs"

text \<open>The state at start-up; \<open>t0\<close> is the clock when the module is loaded.\<close>

definition redis_init :: redis_state where
  "redis_init =
     \<lparr> redisAvailable = False, urlKeys = Map.empty, bucketKeys = Map.empty,
       analyticsKeys = Map.empty, clickKeys = Map.empty \<rparr>"

definition server_init :: "int \<Rightarrow> server" where
  "server_init t0 =
     \<lparr> limiter_cache = redis_init, globalRequestCount = 0, globalWindowStart = t0,
       activeConnections = 0, connectionRejections = 0, requestQueue = [],
       processingRequests = 0, queueRejections = 0, listeners = (\<lambda>r ev. []),
       sent = Map.empty, routed = [] \<rparr>"

section \<open>Sequences of breaker calls\<close>

text \<open>
  What can happen to the breaker, one event at a time: a call passes the guard of
  \<^verbatim>\<open>execute\<close>, an operation in flight succeeds, an operation in flight fails. Calls that
  do not overlap are the special case \<open>breaker_calls\<close>: each is a clock reading and the outcome
  of the operation.
\<close>

datatype breaker_event = Guard int | Succeeded | Failed int

fun breaker_step :: "circuit_breaker \<Rightarrow> breaker_event \<Rightarrow> circuit_breaker" where
  "breaker_step b (Guard now) = (case execute_guard b now of Inl error \<Rightarrow> b | Inr b' \<Rightarrow> b')"
| "breaker_step b Succeeded = onSuccess b"
| "breaker_step b (Failed now) = onFailure b now"

fun breaker_calls :: "circuit_breaker \<Rightarrow> (int \<times> (js_error + unit)) list \<Rightarrow> circuit_breaker" where
  "breaker_calls b [] = b"
| "breaker_calls b ((now, outcome) # rest) =
     breaker_calls (fst (snd (execute b now (\<lambda>s. (outcome, s)) now ()))) rest"


section \<open>Scenarios\<close>

text \<open>
  Concrete states and environments, for the examples below: a mapping, a healthy
  environment in which every command and query is answered within a few milliseconds, the
  state of a fresh process connected to MongoDB, the same with Redis up and the mapping
  cached and stored, and a process whose breaker has just opened while MongoDB is
  disconnected.
\<close>

definition example_doc :: url_doc where
  "example_doc = \<lparr> full_url = ''https://example.com'', short_url = ''abc12345'', clicks = 7, user = None \<rparr>"

definition quiet_env :: read_env where
  "quiet_env =
     \<lparr> now_start = 2000, now_guard = 2000, cache_call = Replies 1, now_failure = 2001,
       primary_call = Answers 5, repopulate_call = Replies 1, fallback_call = Answers 5,
       now_end = 2010, today = ''2024-01-01'', incr_call = Replies 1, expire_call = Replies 1,
       analytics_get_call = Replies 1, analytics_set_call = Replies 1 \<rparr>"

definition world_init :: world where
  "world_init =
     \<lparr> breaker = redisCircuitBreaker, monitor = new_PerformanceMonitor, cache = redis_init,
       store = \<lparr> readyState = Connected, docs = Map.empty \<rparr> \<rparr>"

definition world_stored :: world where
  "world_stored =
     world_init\<lparr>cache := redis_init\<lparr>redisAvailable := True\<rparr>,
                store := \<lparr> readyState = Connected, docs = [''abc12345'' \<mapsto> example_doc] \<rparr>\<rparr>"


definition world_down :: world where
  "world_down =
     world_init\<lparr>breaker := redisCircuitBreaker\<lparr>state := OPEN, failureCount := 10,
                                                  lastFailureTime := Some 1000\<rparr>,
                store := \<lparr> readyState = Disconnected, docs = Map.empty \<rparr>\<rparr>"


definition colliding_env :: create_env where
  "colliding_env =
     \<lparr> generateNanoId = (\<lambda>attempt. ''abc12345''), save_call = (\<lambda>attempt. Answers 5),
       degrade_call = Replies 1 \<rparr>"



text \<open>
  A request for a short code, a health check, and the environment of a request handled
  at clock 1500 with Redis answering.
\<close>

definition redirect_request :: "nat \<Rightarrow> request" where
  "redirect_request r =
     \<lparr> rid = r, path = ''/abc12345'', x_forwarded_for = None, req_ip = Some ''10.0.0.1'',
       remoteAddress = None \<rparr>"

definition health_request :: "nat \<Rightarrow> request" where
  "health_request r =
     \<lparr> rid = r, path = ''/health'', x_forwarded_for = None, req_ip = Some ''10.0.0.1'',
       remoteAddress = None \<rparr>"

definition request_env :: mw_env where
  "request_env =
     \<lparr> limiter_env = \<lparr> rate_now = 1500, bucket_get_call = Replies 1, bucket_set_call = Replies 1 \<rparr>,
       now_retry = 1501, now_global = 1502 \<rparr>"


section \<open>Properties of \<^verbatim>\<open>cacheService\<close>\<close>

lemma parse_all_total: "\<exists>r. try_catch (bind_r (Inr texts) parse_all) (\<lambda>error. Inr []) = Inr r"
  by (cases "parse_all texts") (simp_all add: try_catch_def bind_r_def)

text \<open>
  C10. Every \<^verbatim>\<open>cacheService\<close> operation returns a value and never throws, whatever the
  client answers; when Redis is marked unavailable or the command is rejected, the value
  is the inert default: \<^verbatim>\<open>null\<close> for \<^verbatim>\<open>ping\<close> and \<^verbatim>\<open>get\<close>, \<^verbatim>\<open>false\<close> for \<^verbatim>\<open>set\<close>,
  \<^verbatim>\<open>del\<close> and \<^verbatim>\<open>exists\<close>, 0 for \<^verbatim>\<open>incr\<close> (also when \<^verbatim>\<open>EXPIRE\<close> is the command
  that fails), the empty list for \<^verbatim>\<open>mget\<close>. A reply that \<^verbatim>\<open>JSON.parse\<close> rejects gives
  the default of \<^verbatim>\<open>get\<close> and \<^verbatim>\<open>mget\<close> as well.
\<close>

theorem cacheService_total_inert:
  fixes m :: "'v keyspace" and cs :: counters
  shows "(\<exists>r. cacheService_ping a c = Inr r)
       \<and> (\<exists>r. cacheService_get a c m k = Inr r)
       \<and> (\<exists>r. fst (cacheService_set a c m k v ttl) = Inr r)
       \<and> (\<exists>r. fst (cacheService_del a c m k) = Inr r)
       \<and> (\<exists>r. fst (cacheService_incr a c c' cs k ttl) = Inr r)
       \<and> (\<exists>r. cacheService_mget a c m ks = Inr r)
       \<and> (\<exists>r. cacheService_exists a c m k = Inr r)
       \<and> (\<not> a \<or> rejected c \<longrightarrow>
            cacheService_ping a c = Inr None
          \<and> cacheService_get a c m k = Inr None
          \<and> cacheService_set a c m k v ttl = (Inr False, m)
          \<and> cacheService_del a c m k = (Inr False, m)
          \<and> cacheService_incr a c c' cs k ttl = (Inr 0, cs)
          \<and> cacheService_mget a c m ks = Inr []
          \<and> cacheService_exists a c m k = Inr JsFalse)
       \<and> (a \<and> \<not> rejected c \<and> rejected c' \<and> cs k = None \<longrightarrow>
            fst (cacheService_incr a c c' cs k ttl) = Inr 0)
       \<and> (a \<and> c = Garbled t \<longrightarrow>
            cacheService_get a c m k = Inr None \<and> (ks \<noteq> [] \<longrightarrow> cacheService_mget a c m ks = Inr []))"
proof -
  have ping: "\<exists>r. cacheService_ping a c = Inr r"
    by (cases c) (simp_all add: cacheService_ping_def try_catch_def bind_r_def)
  have get: "\<exists>r. cacheService_get a c m k = Inr r"
    by (cases c; cases "m k")
       (auto simp: cacheService_get_def try_catch_def bind_r_def)
  have set: "\<exists>r. fst (cacheService_set a c m k v ttl) = Inr r"
    by (cases c) (auto simp: cacheService_set_def try_catch_def bind_r_def)
  have del: "\<exists>r. fst (cacheService_del a c m k) = Inr r"
    by (cases c) (auto simp: cacheService_del_def try_catch_def bind_r_def)
  have incr: "\<exists>r. fst (cacheService_incr a c c' cs k ttl) = Inr r"
    by (cases c; cases c'; cases "cs k")
       (auto simp: cacheService_incr_def split: prod.splits sum.splits)
  have mget: "\<exists>r. cacheService_mget a c m ks = Inr r"
  proof (cases "a")
    case False
    then show ?thesis by (simp add: cacheService_mget_def)
  next
    case True
    show ?thesis
    proof (cases "redis_mget c m ks")
      case (Inl e)
      with True show ?thesis
        by (simp add: cacheService_mget_def try_catch_def bind_r_def)
    next
      case (Inr texts)
      with True parse_all_total [of texts] show ?thesis
        by (simp add: cacheService_mget_def)
    qed
  qed
  have exists: "\<exists>r. cacheService_exists a c m k = Inr r"
    by (cases c) (simp_all add: cacheService_exists_def try_catch_def bind_r_def)
  have inert: "\<not> a \<or> rejected c \<longrightarrow>
            cacheService_ping a c = Inr None
          \<and> cacheService_get a c m k = Inr None
          \<and> cacheService_set a c m k v ttl = (Inr False, m)
          \<and> cacheService_del a c m k = (Inr False, m)
          \<and> cacheService_incr a c c' cs k ttl = (Inr 0, cs)
          \<and> cacheService_mget a c m ks = Inr []
          \<and> cacheService_exists a c m k = Inr JsFalse"
    by (cases c)
       (simp_all add: cacheService_ping_def cacheService_get_def cacheService_set_def
          cacheService_del_def cacheService_incr_def cacheService_mget_def
          cacheService_exists_def try_catch_def bind_r_def)
  have expire: "a \<and> \<not> rejected c \<and> rejected c' \<and> cs k = None \<longrightarrow>
            fst (cacheService_incr a c c' cs k ttl) = Inr 0"
    by (cases c; cases c') (simp_all add: cacheService_incr_def)
  have garbled_get: "a \<and> c = Garbled t \<longrightarrow> cacheService_get a c m k = Inr None"
    by (simp add: cacheService_get_def try_catch_def bind_r_def new_Error_def)
  have garbled_mget: "a \<and> c = Garbled t \<longrightarrow> ks \<noteq> [] \<longrightarrow> cacheService_mget a c m ks = Inr []"
    by (cases ks) (simp_all add: cacheService_mget_def try_catch_def bind_r_def new_Error_def)
  from ping get set del incr mget exists inert expire garbled_get garbled_mget
  show ?thesis by blast
qed

theorem cacheService_total_inert_witness:
  "rejected (Rejects 5 ''ECONNRESET'')
   \<and> cacheService_get True (Rejects 5 ''ECONNRESET'') [''url:abc'' \<mapsto> ((1::nat), 600)] ''url:abc'' = Inr None
   \<and> cacheService_set True (Rejects 5 ''ECONNRESET'') Map.empty ''url:abc'' (1::nat) 600 = (Inr False, Map.empty)
   \<and> cacheService_incr True (Rejects 5 ''ECONNRESET'') (Replies 1) Map.empty ''clicks:abc'' 60 = (Inr 0, Map.empty)
   \<and> fst (cacheService_incr True (Replies 1) (Rejects 5 ''ECONNRESET'') Map.empty ''clicks:abc'' 60) = Inr 0
   \<and> cacheService_get True (Garbled 1) (Map.empty :: nat keyspace) ''url:abc'' = Inr None"
  using cacheService_total_inert [of True "Rejects 5 ''ECONNRESET''"
          "[''url:abc'' \<mapsto> ((1::nat), 600)]" "''url:abc''" 1 600 "Replies 1" Map.empty "[]" 1]
        cacheService_total_inert [of True "Rejects 5 ''ECONNRESET''"
          "Map.empty :: nat keyspace" "''url:abc''" 1 600 "Replies 1" Map.empty "[]" 1]
        cacheService_total_inert [of True "Rejects 5 ''ECONNRESET''"
          "Map.empty :: nat keyspace" "''clicks:abc''" 1 60 "Replies 1" Map.empty "[]" 1]
        cacheService_total_inert [of True "Replies 1"
          "Map.empty :: nat keyspace" "''clicks:abc''" 1 60 "Rejects 5 ''ECONNRESET''" Map.empty "[]" 1]
        cacheService_total_inert [of True "Garbled 1"
          "Map.empty :: nat keyspace" "''url:abc''" 1 60 "Replies 1" Map.empty "[]" 1]
  by simp

section \<open>Properties of the circuit breaker\<close>

text \<open>
  An OPEN breaker has reached its threshold: the invariant holds at start and is kept by
  every event, overlapping calls included.
\<close>

lemma open_reached_threshold_init:
  "state (new_CircuitBreaker threshold timeout) = OPEN
     \<longrightarrow> failureThreshold (new_CircuitBreaker threshold timeout)
           \<le> failureCount (new_CircuitBreaker threshold timeout)"
  by (simp add: new_CircuitBreaker_def)

lemma open_reached_threshold_step:
  assumes "state b = OPEN \<longrightarrow> failureThreshold b \<le> failureCount b"
  shows "state (breaker_step b ev) = OPEN
           \<longrightarrow> failureThreshold (breaker_step b ev) \<le> failureCount (breaker_step b ev)"
  using assms
  by (cases ev) (auto simp: execute_guard_def onSuccess_def onFailure_def Let_def split: if_splits)

text \<open>
  The probe that follows the recovery timeout, when it fails, reopens the breaker: the
  failure count was left at the threshold.
\<close>

lemma failed_probe_reopens:
  assumes "state b = OPEN" and "failureThreshold b \<le> failureCount b"
      and "now - (case lastFailureTime b of None \<Rightarrow> 0 | Some t \<Rightarrow> t) > recoveryTimeout b"
      and "fst (operation s) = Inl e"
  shows "state (fst (snd (execute b now operation now' s))) = OPEN"
  using assms
  by (cases "operation s") (auto simp: execute_def execute_guard_def onFailure_def Let_def)

text \<open>
  C2, as the code has it. A failure of the wrapped operation while the breaker is
  HALF_OPEN is rethrown, sets \<^verbatim>\<open>lastFailureTime\<close> to the current time and adds one to
  \<^verbatim>\<open>failureCount\<close>; the breaker goes back to OPEN exactly when the new count has reached
  \<^verbatim>\<open>failureThreshold\<close>, and stays HALF_OPEN otherwise.
\<close>

theorem half_open_failure:
  assumes "state b = HALF_OPEN" and "fst (operation s) = Inl e"
  shows "fst (execute b now operation now' s) = Inl e
       \<and> lastFailureTime (fst (snd (execute b now operation now' s))) = Some now'
       \<and> failureCount (fst (snd (execute b now operation now' s))) = failureCount b + 1
       \<and> state (fst (snd (execute b now operation now' s)))
           = (if failureThreshold b \<le> failureCount b + 1 then OPEN else HALF_OPEN)"
  using assms
  by (cases "operation s") (auto simp: execute_def execute_guard_def onFailure_def Let_def)

theorem half_open_failure_witness:
  "state (redisCircuitBreaker\<lparr>state := HALF_OPEN, successCount := 1\<rparr>) = HALF_OPEN
   \<and> lastFailureTime (fst (snd (execute (redisCircuitBreaker\<lparr>state := HALF_OPEN, successCount := 1\<rparr>)
        70000 (\<lambda>s :: unit. (Inl (new_Error ''ECONNRESET'') :: js_error + unit, s)) 70002 ()))) = Some 70002
   \<and> state (fst (snd (execute (redisCircuitBreaker\<lparr>state := HALF_OPEN, successCount := 1\<rparr>)
        70000 (\<lambda>s :: unit. (Inl (new_Error ''ECONNRESET'') :: js_error + unit, s)) 70002 ()))) = HALF_OPEN
   \<and> state (fst (snd (execute (redisCircuitBreaker\<lparr>state := HALF_OPEN, failureCount := 10\<rparr>)
        70000 (\<lambda>s :: unit. (Inl (new_Error ''ECONNRESET'') :: js_error + unit, s)) 70002 ()))) = OPEN"
  using half_open_failure [of "redisCircuitBreaker\<lparr>state := HALF_OPEN, successCount := 1\<rparr>"
          "\<lambda>s :: unit. (Inl (new_Error ''ECONNRESET'') :: js_error + unit, s)" "()"
          "new_Error ''ECONNRESET''" 70000 70002]
        half_open_failure [of "redisCircuitBreaker\<lparr>state := HALF_OPEN, failureCount := 10\<rparr>"
          "\<lambda>s :: unit. (Inl (new_Error ''ECONNRESET'') :: js_error + unit, s)" "()"
          "new_Error ''ECONNRESET''" 70000 70002]
  by (simp add: redisCircuitBreaker_def new_CircuitBreaker_def)

text \<open>
  C2 as stated fails. Ten failures open the breaker of the cache service; after the
  recovery timeout a call succeeds and leaves it HALF_OPEN with the failure count at 0;
  the failure of the next call leaves it HALF_OPEN.
\<close>

theorem half_open_failure_counterexample:
  "state (breaker_calls redisCircuitBreaker
            (replicate 10 (0, Inl (new_Error ''ECONNRESET'')) @ [(60001, Inr ())])) = HALF_OPEN
   \<and> state (breaker_calls redisCircuitBreaker
            (replicate 10 (0, Inl (new_Error ''ECONNRESET'')) @ [(60001, Inr ()),
               (60002, Inl (new_Error ''ECONNRESET''))])) \<noteq> OPEN"
  by (simp add: eval_nat_numeral redisCircuitBreaker_def new_CircuitBreaker_def execute_def
        execute_guard_def onFailure_def onSuccess_def Let_def)


section \<open>Properties of the token bucket\<close>

lemma cacheService_get_Inr: "\<exists>r. cacheService_get a c m k = Inr r"
  by (cases c; cases "m k") (auto simp: cacheService_get_def try_catch_def bind_r_def)


lemma cacheService_set_stored:
  "a \<Longrightarrow> \<not> rejected c \<Longrightarrow> cacheService_set a c m k v ttl = (Inr True, m(k \<mapsto> (v, ttl)))"
  by (cases c) (auto simp: cacheService_set_def try_catch_def bind_r_def)






section \<open>Properties of the read path\<close>

lemma cache_lookup_rest:
  "store (snd (cache_lookup w env shortUrl)) = store w
   \<and> cache (snd (cache_lookup w env shortUrl)) = cache w
   \<and> monitor (snd (cache_lookup w env shortUrl)) = monitor w"
  by (simp add: cache_lookup_def Let_def case_prod_beta)

lemma fallback_result:
  "fst (fallback_to_database w env shortUrl) =
     (case await_race (fst (getShortUrlFromDB (fallback_call env) (store w) shortUrl))
             2500 ''Fallback timeout'' of
        Inr fallbackResult \<Rightarrow> Inr fallbackResult
      | Inl fallbackError \<Rightarrow> Inr None)"
  by (simp add: fallback_to_database_def Let_def case_prod_beta split: sum.splits)


lemma fallback_cache:
  "cache (snd (fallback_to_database w env shortUrl)) = cache w"
  by (simp add: fallback_to_database_def Let_def case_prod_beta split: sum.splits)

text \<open>
  C8. \<^verbatim>\<open>urlCacheService.getShortUrl\<close> always returns a value, never an exception. When
  the cache read fails (breaker open, cache timeout) and the fallback query fails or
  times out, the value is \<^verbatim>\<open>null\<close>; so it is when the cache misses and both store
  queries, the first one and the fallback, fail or time out.
\<close>

theorem getShortUrl_never_throws:
  "(\<exists>r. fst (getShortUrl w env shortUrl) = Inr r)
   \<and> (\<forall>e e'. fst (cache_lookup w env shortUrl) = Inl e
          \<and> await_race (fst (getShortUrlFromDB (fallback_call env) (store w) shortUrl))
               2500 ''Fallback timeout'' = Inl e'
        \<longrightarrow> fst (getShortUrl w env shortUrl) = Inr None)
   \<and> (\<forall>e e'. fst (cache_lookup w env shortUrl) = Inr None
          \<and> await_race (fst (getShortUrlFromDB (primary_call env) (store w) shortUrl))
               3000 ''DB timeout'' = Inl e
          \<and> await_race (fst (getShortUrlFromDB (fallback_call env)
                 (snd (getShortUrlFromDB (primary_call env) (store w) shortUrl)) shortUrl))
               2500 ''Fallback timeout'' = Inl e'
        \<longrightarrow> fst (getShortUrl w env shortUrl) = Inr None)"
proof (intro conjI allI impI)
  show "\<exists>r. fst (getShortUrl w env shortUrl) = Inr r"
    by (auto simp: getShortUrl_def Let_def case_prod_beta fallback_result
             split: prod.splits sum.splits option.splits)
next
  fix e e'
  assume "fst (cache_lookup w env shortUrl) = Inl e
          \<and> await_race (fst (getShortUrlFromDB (fallback_call env) (store w) shortUrl))
               2500 ''Fallback timeout'' = Inl e'"
  moreover have "store (snd (cache_lookup w env shortUrl)) = store w"
    by (simp add: cache_lookup_rest)
  ultimately show "fst (getShortUrl w env shortUrl) = Inr None"
    by (cases "cache_lookup w env shortUrl") (simp add: getShortUrl_def fallback_result)
next
  fix e e'
  assume a: "fst (cache_lookup w env shortUrl) = Inr None
          \<and> await_race (fst (getShortUrlFromDB (primary_call env) (store w) shortUrl))
               3000 ''DB timeout'' = Inl e
          \<and> await_race (fst (getShortUrlFromDB (fallback_call env)
                 (snd (getShortUrlFromDB (primary_call env) (store w) shortUrl)) shortUrl))
               2500 ''Fallback timeout'' = Inl e'"
  have "store (snd (cache_lookup w env shortUrl)) = store w"
    by (simp add: cache_lookup_rest)
  with a show "fst (getShortUrl w env shortUrl) = Inr None"
    by (cases "cache_lookup w env shortUrl")
       (simp add: getShortUrl_def fallback_result Let_def case_prod_beta)
qed

theorem getShortUrl_never_throws_witness:
  "fst (cache_lookup world_down quiet_env ''abc12345'')
     = Inl (new_Error ''Circuit breaker is OPEN - Redis temporarily unavailable'')
   \<and> await_race (fst (getShortUrlFromDB (fallback_call quiet_env) (store world_down) ''abc12345''))
        2500 ''Fallback timeout'' = Inl (new_Error ''Database connection error - please try again'')
   \<and> fst (getShortUrl world_down quiet_env ''abc12345'') = Inr None"
proof -
  have 1: "fst (cache_lookup world_down quiet_env ''abc12345'')
     = Inl (new_Error ''Circuit breaker is OPEN - Redis temporarily unavailable'')"
    by (simp add: cache_lookup_def world_down_def world_init_def quiet_env_def
          redisCircuitBreaker_def new_CircuitBreaker_def execute_def execute_guard_def)
  have 2: "await_race (fst (getShortUrlFromDB (fallback_call quiet_env) (store world_down) ''abc12345''))
        2500 ''Fallback timeout'' = Inl (new_Error ''Database connection error - please try again'')"
    by (simp add: world_down_def world_init_def quiet_env_def getShortUrlFromDB_def
          checkConnectionHealth_def get_rethrown_def new_Error_def await_race_def)
  from 1 2 getShortUrl_never_throws [of world_down quiet_env "''abc12345''"]
  show ?thesis by simp
qed

section \<open>Click counts on the read path\<close>











section \<open>Properties of the write path\<close>

lemma quick_save_collision:
  assumes "readyState (store w) = Connected" and "t < 2500" and "docs (store w) shortUrl \<noteq> None"
  shows "quick_save w (Answers t) shortUrl url = (Inl (new_Error ''Short URL already exists''), w)"
  using assms
  by (simp add: quick_save_def saveShortUrl_def checkConnectionHealth_def Let_def
        save_rethrown_def await_race_def)

lemma loop_last_attempt:
  assumes "generateNanoId env maxCollisions \<noteq> []"
      and "quick_save w (save_call env maxCollisions) (generateNanoId env maxCollisions) url = (Inl e, w1)"
  shows "generated_code_loop w env url timers maxCollisions
           = (Inr (generateNanoId env maxCollisions),
              fst (degrade w1 (degrade_call env) (generateNanoId env maxCollisions) url),
              timers @ [BackgroundPersistence 100 (generateNanoId env maxCollisions) url])"
  using assms
  by (subst generated_code_loop.simps) (simp add: Let_def degrade_def case_prod_beta)

lemma loop_collision_step:
  assumes "attempt < maxCollisions" and "generateNanoId env attempt \<noteq> []"
      and "quick_save w (save_call env attempt) (generateNanoId env attempt) url
             = (Inl (new_Error ''Short URL already exists''), w1)"
  shows "generated_code_loop w env url timers attempt
           = generated_code_loop w1 env url (timers @ [Backoff (2 ^ attempt * 10)]) (attempt + 1)"
  using assms
  by (subst generated_code_loop.simps) (simp add: Let_def new_Error_def)

lemma loop_all_collisions:
  assumes conn: "readyState (store w) = Connected"
      and coll: "\<forall>i \<le> maxCollisions. generateNanoId env i \<noteq> []
                   \<and> docs (store w) (generateNanoId env i) \<noteq> None
                   \<and> (\<exists>t < 2500. save_call env i = Answers t)"
      and le: "attempt \<le> maxCollisions"
  shows "fst (generated_code_loop w env url timers attempt) = Inr (generateNanoId env maxCollisions)
       \<and> fst (snd (generated_code_loop w env url timers attempt))
           = fst (degrade w (degrade_call env) (generateNanoId env maxCollisions) url)"
  using le
proof (induction "maxCollisions - attempt" arbitrary: attempt timers)
  case 0
  then have eq: "attempt = maxCollisions" by simp
  from coll obtain t where t: "t < 2500" "save_call env maxCollisions = Answers t"
    and g: "generateNanoId env maxCollisions \<noteq> []"
    and d: "docs (store w) (generateNanoId env maxCollisions) \<noteq> None"
    by blast
  from quick_save_collision [OF conn t(1) d, of url] t(2)
  have "quick_save w (save_call env maxCollisions) (generateNanoId env maxCollisions) url
          = (Inl (new_Error ''Short URL already exists''), w)" by simp
  from loop_last_attempt [OF g this] show ?case by (simp add: eq)
next
  case (Suc k)
  then have lt: "attempt < maxCollisions" by simp
  with coll obtain t where t: "t < 2500" "save_call env attempt = Answers t"
    and g: "generateNanoId env attempt \<noteq> []"
    and d: "docs (store w) (generateNanoId env attempt) \<noteq> None"
    by (metis less_or_eq_imp_le)
  from quick_save_collision [OF conn t(1) d, of url] t(2)
  have "quick_save w (save_call env attempt) (generateNanoId env attempt) url
          = (Inl (new_Error ''Short URL already exists''), w)" by simp
  from loop_collision_step [OF lt g this]
  have "generated_code_loop w env url timers attempt
          = generated_code_loop w env url (timers @ [Backoff (2 ^ attempt * 10)]) (attempt + 1)" .
  moreover have "k = maxCollisions - (attempt + 1)" "attempt + 1 \<le> maxCollisions"
    using Suc.hyps(2) lt by simp_all
  ultimately show ?case using Suc.hyps(1) by simp
qed

text \<open>
  The \<^verbatim>\<open>throw\<close> that follows the loop is never reached: the only error the generated-code
  path returns is that of an empty identifier.
\<close>

lemma loop_never_exhausts:
  assumes "attempt \<le> maxCollisions"
      and "fst (generated_code_loop w env url timers attempt) = Inl e"
  shows "e = new_Error ''Short URL not generated''"
  using assms
proof (induction w env url timers attempt rule: generated_code_loop.induct)
  case (1 w env url timers attempt)
  show ?case
  proof (cases "generateNanoId env attempt = []")
    case True
    with "1.prems" show ?thesis
      by (subst (asm) generated_code_loop.simps) (simp add: Let_def)
  next
    case False
    obtain r w1 where q: "quick_save w (save_call env attempt) (generateNanoId env attempt) url = (r, w1)"
      by (cases "quick_save w (save_call env attempt) (generateNanoId env attempt) url")
    show ?thesis
    proof (cases r)
      case (Inr saved)
      with "1.prems" False q show ?thesis
        by (subst (asm) generated_code_loop.simps) (simp add: Let_def)
    next
      case (Inl err)
      show ?thesis
      proof (cases "message err = ''Short URL already exists'' \<and> attempt < maxCollisions")
        case True
        with "1.prems" False q Inl
        have "fst (generated_code_loop w1 env url (timers @ [Backoff (2 ^ attempt * 10)]) (attempt + 1)) = Inl e"
          by (subst (asm) generated_code_loop.simps) (simp add: Let_def)
        moreover from True have "attempt + 1 \<le> maxCollisions" by simp
        ultimately show ?thesis
          using "1.IH" [OF "1.prems"(1) refl False q [symmetric] Inl True] by simp
      next
        case False': False
        with "1.prems" False q Inl show ?thesis
          by (subst (asm) generated_code_loop.simps) (auto simp: Let_def case_prod_beta)
      qed
    qed
  qed
qed

text \<open>
  C3, on the code. When MongoDB is connected and every one of the six generated
  identifiers (attempts 0 to \<open>maxCollisions\<close>) is refused as existing within the race
  timeout, \<^verbatim>\<open>createShortUrlWithoutUser\<close> does not fail: the test \<^verbatim>\<open>attempt < maxCollisions\<close>
  sends the last collision to the degrade path, so the call returns the identifier of the
  last attempt, an identifier that belongs to another mapping, and, when Redis takes the
  write, puts the new URL under that identifier in the cache.
\<close>

theorem create_all_collisions_returns_code:
  assumes "readyState (store w) = Connected"
      and "\<forall>i \<le> maxCollisions. generateNanoId env i \<noteq> []
             \<and> docs (store w) (generateNanoId env i) \<noteq> None
             \<and> (\<exists>t < 2500. save_call env i = Answers t)"
  shows "fst (createShortUrlWithoutUser w env url None) = Inr (generateNanoId env maxCollisions)
       \<and> (redisAvailable (cache w) \<and> \<not> rejected (degrade_call env) \<longrightarrow>
            urlKeys (cache (fst (snd (createShortUrlWithoutUser w env url None))))
                (''url:'' @ generateNanoId env maxCollisions)
              = Some (\<lparr> full_url = url, short_url = generateNanoId env maxCollisions,
                        clicks = 0, user = None \<rparr>, 600))"
  using loop_all_collisions [OF assms, of 0 url "[]"]
  by (auto simp: createShortUrlWithoutUser_def degrade_def Let_def cacheService_set_stored)

theorem create_all_collisions_returns_code_witness:
  "map_option full_url (docs (store world_stored) ''abc12345'') = Some ''https://example.com''
   \<and> fst (createShortUrlWithoutUser world_stored colliding_env ''https://other.example'' None)
       = Inr ''abc12345''
   \<and> map_option (\<lambda>(d, ttl). full_url d)
        (urlKeys (cache (fst (snd (createShortUrlWithoutUser world_stored colliding_env
           ''https://other.example'' None)))) ''url:abc12345'') = Some ''https://other.example''"
  using create_all_collisions_returns_code [of world_stored colliding_env "''https://other.example''"]
  by (simp add: world_stored_def world_init_def redis_init_def colliding_env_def example_doc_def
        maxCollisions_def)

subsection \<open>The degrade path\<close>









section \<open>Properties of the admission middlewares\<close>

text \<open>
  C1, on the code. One request is admitted and completes normally: Node emits
  \<^verbatim>\<open>finish\<close> and then \<^verbatim>\<open>close\<close> on its response. The connection middleware has
  registered one decrementing listener on each event and removes neither, so the counter
  goes from 1 to -1; the queue middleware, whose \<^verbatim>\<open>onDone\<close> removes itself from both
  events, brings \<^verbatim>\<open>processingRequests\<close> back to 0.
\<close>

theorem activeConnections_double_decrement:
  "activeConnections (run_server (server_init 1000) [Arrives (redirect_request 0) request_env]) = 1
   \<and> routed (run_server (server_init 1000) [Arrives (redirect_request 0) request_env]) = [0]
   \<and> activeConnections (run_server (server_init 1000)
        [Arrives (redirect_request 0) request_env, Emits 0 Finish]) = 0
   \<and> activeConnections (run_server (server_init 1000)
        [Arrives (redirect_request 0) request_env, Emits 0 Finish, Emits 0 Close]) = - 1
   \<and> processingRequests (run_server (server_init 1000)
        [Arrives (redirect_request 0) request_env, Emits 0 Finish, Emits 0 Close]) = 0"
  by (simp add: run_server_def handle_request_def pipeline_def server_init_def redis_init_def
        redirect_request_def request_env_def perIpRateLimiter_def rateLimiter_def limiter_config_def
        checkRateLimit_def cacheService_get_def cacheService_set_def bucket_or_default_def
        refill_tokens_def clientIp_def globalRateLimiter_def connectionLimiter_def
        requestQueueing_def processNextQueuedRequest_def emit_def res_on_def removeListener_def
        GLOBAL_WINDOW_MS_def GLOBAL_RATE_LIMIT_def MAX_CONNECTIONS_def MAX_CONCURRENT_REQUESTS_def
        Let_def)

text \<open>
  Whatever the state, a request whose response sees both events leaves the counter one
  below where it was; a response that is only closed leaves it where it was.
\<close>

lemma connection_counter_net:
  assumes "listeners s (rid req) Finish = []" and "listeners s (rid req) Close = []"
  shows "activeConnections (emit (rid req) Close (emit (rid req) Finish (snd (connectionLimiter s req))))
           = activeConnections s - 1"
    and "activeConnections (emit (rid req) Close (snd (connectionLimiter s req))) = activeConnections s"
  using assms
  by (simp_all add: connectionLimiter_def emit_def res_on_def Let_def)

text \<open>
  C9. While \<^verbatim>\<open>processingRequests\<close> is at the concurrency limit: an arrival that finds
  the queue full is answered 503 "Server overloaded" with the current queue length, and
  the queue is unchanged; otherwise a request for \<^verbatim>\<open>/health\<close> or \<^verbatim>\<open>/metrics\<close> is put
  at the front of the queue and any other request at the back, and \<^verbatim>\<open>next()\<close> is not
  called. When capacity is free, \<^verbatim>\<open>processNextQueuedRequest\<close> takes the entry at the front
  of the queue and hands it on.
\<close>

theorem queue_priority_and_overload:
  "(processingRequests s \<ge> int MAX_CONCURRENT_REQUESTS \<and> length (requestQueue s) \<ge> MAX_QUEUE_SIZE \<longrightarrow>
      requestQueueing s req =
        (False, s\<lparr>queueRejections := queueRejections s + 1,
                  sent := (sent s)(rid req \<mapsto>
                    \<lparr> status = 503,
                      json = ServerOverloaded ''Server overloaded, please try again later'' 2
                               (length (requestQueue s)) MAX_QUEUE_SIZE \<rparr>)\<rparr>))
   \<and> (processingRequests s \<ge> int MAX_CONCURRENT_REQUESTS \<and> length (requestQueue s) < MAX_QUEUE_SIZE
        \<and> (path req = ''/health'' \<or> path req = ''/metrics'') \<longrightarrow>
      requestQueueing s req = (False, s\<lparr>requestQueue := req # requestQueue s\<rparr>))
   \<and> (processingRequests s \<ge> int MAX_CONCURRENT_REQUESTS \<and> length (requestQueue s) < MAX_QUEUE_SIZE
        \<and> path req \<noteq> ''/health'' \<and> path req \<noteq> ''/metrics'' \<longrightarrow>
      requestQueueing s req = (False, s\<lparr>requestQueue := requestQueue s @ [req]\<rparr>))
   \<and> (\<forall>entry rest. processingRequests s < int MAX_CONCURRENT_REQUESTS \<and> requestQueue s = entry # rest \<longrightarrow>
      requestQueue (processNextQueuedRequest s) = rest
      \<and> routed (processNextQueuedRequest s) = routed s @ [rid entry]
      \<and> processingRequests (processNextQueuedRequest s) = processingRequests s + 1)"
proof -
  have overload: "processingRequests s \<ge> int MAX_CONCURRENT_REQUESTS \<and> length (requestQueue s) \<ge> MAX_QUEUE_SIZE \<longrightarrow>
      requestQueueing s req =
        (False, s\<lparr>queueRejections := queueRejections s + 1,
                  sent := (sent s)(rid req \<mapsto>
                    \<lparr> status = 503,
                      json = ServerOverloaded ''Server overloaded, please try again later'' 2
                               (length (requestQueue s)) MAX_QUEUE_SIZE \<rparr>)\<rparr>)"
    by (simp add: requestQueueing_def)
  have stay: "processNextQueuedRequest (s\<lparr>requestQueue := q\<rparr>) = s\<lparr>requestQueue := q\<rparr>"
    if "processingRequests s \<ge> int MAX_CONCURRENT_REQUESTS" for q
    using that by (cases q) (simp_all add: processNextQueuedRequest_def)
  have at_front: "processingRequests s \<ge> int MAX_CONCURRENT_REQUESTS \<and> length (requestQueue s) < MAX_QUEUE_SIZE
        \<and> (path req = ''/health'' \<or> path req = ''/metrics'') \<longrightarrow>
      requestQueueing s req = (False, s\<lparr>requestQueue := req # requestQueue s\<rparr>)"
    using stay by (auto simp: requestQueueing_def Let_def)
  have at_back: "processingRequests s \<ge> int MAX_CONCURRENT_REQUESTS \<and> length (requestQueue s) < MAX_QUEUE_SIZE
        \<and> path req \<noteq> ''/health'' \<and> path req \<noteq> ''/metrics'' \<longrightarrow>
      requestQueueing s req = (False, s\<lparr>requestQueue := requestQueue s @ [req]\<rparr>)"
    using stay by (auto simp: requestQueueing_def Let_def)
  have dequeue: "\<forall>entry rest. processingRequests s < int MAX_CONCURRENT_REQUESTS \<and> requestQueue s = entry # rest \<longrightarrow>
      requestQueue (processNextQueuedRequest s) = rest
      \<and> routed (processNextQueuedRequest s) = routed s @ [rid entry]
      \<and> processingRequests (processNextQueuedRequest s) = processingRequests s + 1"
    by (simp add: processNextQueuedRequest_def Let_def)
  from overload at_front at_back dequeue show ?thesis by blast
qed

theorem queue_priority_and_overload_witness:
  "requestQueue (snd (requestQueueing
      ((server_init 1000)\<lparr>processingRequests := 1000, requestQueue := [redirect_request 1]\<rparr>)
      (health_request 2))) = [health_request 2, redirect_request 1]
   \<and> requestQueue (snd (requestQueueing
      ((server_init 1000)\<lparr>processingRequests := 1000, requestQueue := [redirect_request 1]\<rparr>)
      (redirect_request 3))) = [redirect_request 1, redirect_request 3]
   \<and> sent (snd (requestQueueing
      ((server_init 1000)\<lparr>processingRequests := 1000, requestQueue := replicate 5000 (redirect_request 1)\<rparr>)
      (health_request 2))) 2
       = Some \<lparr> status = 503,
                json = ServerOverloaded ''Server overloaded, please try again later'' 2 5000 5000 \<rparr>
   \<and> requestQueue (processNextQueuedRequest
      ((server_init 1000)\<lparr>processingRequests := 999,
          requestQueue := [health_request 2, redirect_request 1]\<rparr>)) = [redirect_request 1]
   \<and> routed (processNextQueuedRequest
      ((server_init 1000)\<lparr>processingRequests := 999,
          requestQueue := [health_request 2, redirect_request 1]\<rparr>)) = [2]"
  using queue_priority_and_overload
          [of "(server_init 1000)\<lparr>processingRequests := 1000, requestQueue := [redirect_request 1]\<rparr>"
              "health_request 2"]
        queue_priority_and_overload
          [of "(server_init 1000)\<lparr>processingRequests := 1000, requestQueue := [redirect_request 1]\<rparr>"
              "redirect_request 3"]
        queue_priority_and_overload
          [of "(server_init 1000)\<lparr>processingRequests := 1000,
                 requestQueue := replicate 5000 (redirect_request 1)\<rparr>"
              "health_request 2"]
        queue_priority_and_overload
          [of "(server_init 1000)\<lparr>processingRequests := 999,
                 requestQueue := [health_request 2, redirect_request 1]\<rparr>"
              "health_request 2"]
  by (simp add: server_init_def MAX_CONCURRENT_REQUESTS_def MAX_QUEUE_SIZE_def
        health_request_def redirect_request_def)






end
